theory Spec2Isabelle
  imports
    Complex_Main
    "HOL-Library.Char_ord"
    "HOL-Library.List_Lexorder"
    "HOL-Library.Product_Lexorder"
    "HOL-Library.Sublist"
begin

section \<open>The salary dashboard of app.py\<close>

text \<open>
  app.py is one Streamlit script: it loads a table of salaries, reads the sidebar
  widgets, filters the table, and writes metrics, charts and a data table to the
  page. The script is embedded as a function from the loaded table, the reference
  table of countries and the state of the widgets to either an exception or the list of
  elements written to the page, in the order of the script.

  Salaries are the column \<open>usd\<close>. pandas holds it as machine floats; this development
  works over the rationals, so every mean below is the exact quotient, and an equation
  between means is the exact counterpart of what pandas computes up to rounding.
  Strings are byte strings ordered lexicographically by character code, which is the
  order of Python's \<open>sorted\<close> and of the sorted group keys of pandas.
\<close>

subsection \<open>Data model\<close>

text \<open>One row of the CSV file, with the columns the script reads.\<close>

record registro =
  ano :: int
  senioridade :: string
  contrato :: string
  tamanho_empresa :: string
  cargo :: string
  remoto :: string
  residencia_iso3 :: string
  usd :: rat

text \<open>The values returned by the four \<open>st.sidebar.multiselect\<close> widgets (lines 21-27).\<close>

record selecao =
  anos_selecionados :: "int list"
  senioridades_selecionadas :: "string list"
  contratos_selecionados :: "string list"
  tamanhos_selecionados :: "string list"

text \<open>The exceptions the calls of the script can raise.\<close>

datatype erro = ValueError | KeyError | StreamlitAPIException

subsection \<open>pandas primitives\<close>

text \<open>
  \<open>Series.unique()\<close>: the distinct values in order of first appearance.
\<close>

fun unique :: "'a list \<Rightarrow> 'a list" where
  "unique [] = []"
| "unique (x # xs) = x # unique (filter (\<lambda>y. y \<noteq> x) xs)"

text \<open>
  \<open>Series.mean()\<close> and \<open>Series.max()\<close>. On an empty column pandas returns NaN; the
  equations below say nothing about the empty list, so nothing can be proved about
  a mean or a maximum of no rows.
\<close>

fun mean :: "rat list \<Rightarrow> rat" where
  "mean (x # xs) = (x + sum_list xs) / of_nat (Suc (length xs))"

fun maximo :: "rat list \<Rightarrow> rat" where
  "maximo (x # xs) = fold max xs x"

text \<open>
  \<open>df.groupby(chave)[valor].mean()\<close>: one row per distinct key, the keys sorted
  ascending (\<open>sort=True\<close> is the default of \<open>groupby\<close>), each with the mean of the
  rows of that key.
\<close>

definition groupby_mean :: "('r \<Rightarrow> 'k::linorder) \<Rightarrow> ('r \<Rightarrow> rat) \<Rightarrow> 'r list \<Rightarrow> ('k \<times> rat) list" where
  "groupby_mean chave valor df =
     map (\<lambda>k. (k, mean (map valor (filter (\<lambda>r. chave r = k) df))))
       (sort (unique (map chave df)))"

text \<open>
  \<open>DataFrame.nlargest(n, 'usd')\<close> with the default \<open>keep='first'\<close>: the first \<open>n\<close>
  rows in descending order of the column, rows of equal value in their order in the
  frame. \<open>sort_key\<close> is insertion sort, which is stable.
\<close>

definition nlargest :: "nat \<Rightarrow> ('k \<times> rat) list \<Rightarrow> ('k \<times> rat) list" where
  "nlargest n linhas = take n (sort_key (\<lambda>l. - snd l) linhas)"

text \<open>
  \<open>sort_values('usd', ascending=True)\<close> and \<open>sort_values('usd', ascending=False)\<close>.
  The order pandas gives to rows of equal value is left to its sorting algorithm; the
  model sorts stably.
\<close>

definition sort_values_asc :: "('k \<times> rat) list \<Rightarrow> ('k \<times> rat) list" where
  "sort_values_asc linhas = sort_key snd linhas"

definition sort_values_desc :: "('k \<times> rat) list \<Rightarrow> ('k \<times> rat) list" where
  "sort_values_desc linhas = sort_key (\<lambda>l. - snd l) linhas"

text \<open>
  \<open>Series.value_counts()\<close>: the distinct values with their number of occurrences,
  most frequent first; the model keeps values of equal count in their order of first
  appearance. \<open>Series.idxmax()\<close>: the label of the first maximum; it raises
  ValueError on an empty series.
\<close>

definition value_counts :: "'a list \<Rightarrow> ('a \<times> nat) list" where
  "value_counts xs =
     sort_key (\<lambda>l. - int (snd l)) (map (\<lambda>k. (k, count_list xs k)) (unique xs))"

fun idxmax_de :: "'a \<times> nat \<Rightarrow> ('a \<times> nat) list \<Rightarrow> 'a" where
  "idxmax_de (k, c) [] = k"
| "idxmax_de (k, c) ((k', c') # resto) =
     (if c < c' then idxmax_de (k', c') resto else idxmax_de (k, c) resto)"

fun idxmax :: "('a \<times> nat) list \<Rightarrow> erro + 'a" where
  "idxmax [] = Inl ValueError"
| "idxmax (l # resto) = Inr (idxmax_de l resto)"

subsection \<open>Sidebar (lines 18-32)\<close>

definition anos_disponiveis :: "registro list \<Rightarrow> int list" where
  "anos_disponiveis df = sort (unique (map ano df))"

definition senioridades_disponiveis :: "registro list \<Rightarrow> string list" where
  "senioridades_disponiveis df = sort (unique (map senioridade df))"

definition contratos_disponiveis :: "registro list \<Rightarrow> string list" where
  "contratos_disponiveis df = sort (unique (map contrato df))"

definition tamanhos_disponiveis :: "registro list \<Rightarrow> string list" where
  "tamanhos_disponiveis df = sort (unique (map tamanho_empresa df))"

text \<open>
  Each multiselect is created with \<open>default=\<close> its whole list of options: this is the
  selection of a run in which the user has touched no filter.
\<close>

definition selecao_padrao :: "registro list \<Rightarrow> selecao" where
  "selecao_padrao df =
     \<lparr> anos_selecionados = anos_disponiveis df,
       senioridades_selecionadas = senioridades_disponiveis df,
       contratos_selecionados = contratos_disponiveis df,
       tamanhos_selecionados = tamanhos_disponiveis df \<rparr>"

text \<open>
  \<open>st.sidebar.slider(min_value, max_value, value, step)\<close>. The widget belongs to
  Streamlit; it is modelled by its contract. The call raises StreamlitAPIException when
  the bounds or the default are inconsistent. The state of the widget is the position of
  the thumb on the track, counted in steps from the left end (\<open>None\<close>: never moved, the
  widget holds its default); the track ends at the last step not beyond \<open>max_value\<close>,
  and a thumb dragged further stays there.
\<close>

definition slider :: "int \<Rightarrow> int \<Rightarrow> int \<Rightarrow> int \<Rightarrow> nat option \<Rightarrow> erro + int" where
  "slider min_value max_value value step posicao =
     (if step \<le> 0 \<or> max_value < min_value \<or> value < min_value \<or> max_value < value
      then Inl StreamlitAPIException
      else (case posicao of
              None \<Rightarrow> Inr value
            | Some k \<Rightarrow> Inr (min_value + step * min (int k) ((max_value - min_value) div step))))"

definition top_n_cargos :: "nat option \<Rightarrow> erro + int" where
  "top_n_cargos posicao = slider 5 20 10 1 posicao"

definition hist_bins :: "nat option \<Rightarrow> erro + int" where
  "hist_bins posicao = slider 10 50 30 1 posicao"

subsection \<open>Filtering (lines 35-38)\<close>

text \<open>
  \<open>df.query("ano in @anos_selecionados and senioridade in @senioridades_selecionadas
  and contrato in @contratos_selecionados and tamanho_empresa in @tamanhos_selecionados")\<close>
  keeps the rows on which the expression is true, in the order of the frame.
\<close>

definition df_filtrado :: "registro list \<Rightarrow> selecao \<Rightarrow> registro list" where
  "df_filtrado df s =
     filter (\<lambda>r. ano r \<in> set (anos_selecionados s)
                \<and> senioridade r \<in> set (senioridades_selecionadas s)
                \<and> contrato r \<in> set (contratos_selecionados s)
                \<and> tamanho_empresa r \<in> set (tamanhos_selecionados s)) df"

subsection \<open>What the script writes to the page\<close>

text \<open>
  The page is the list of elements the script has written to the main area; the
  widgets of the sidebar are the inputs of the run and are not listed. The literal titles and
  labels are presentation and are not kept: a subheader is named by its section, a metric
  carries the value handed to the format string, a chart carries the frame handed to
  plotly and the slider value it uses.
\<close>

datatype secao =
    MetricasGerais | TopCargos | DistribuicaoDeSalarios | CientistasDeDados | DadosDetalhados

datatype metrica =
    SalarioMedio rat | SalarioMaximo rat | TotalDeRegistros nat | CargoMaisFrequente string

text \<open>A row of \<open>df_anim\<close> after lines 126-140.\<close>

record linha_anim =
  ano_anim :: int
  residencia_iso3_anim :: string
  usd_anim :: rat
  pais_full :: string
  pais_abrev :: string
  cor :: rat

datatype grafico =
    FigTop int "(string \<times> rat) list"
  | FigHist "rat list" int
  | FigRemoto "(string \<times> nat) list"
  | FigBarAnim "linha_anim list"

datatype saida =
    Title | Markdown | Divisor
  | Subheader secao
  | Metric metrica
  | PlotlyChart grafico
  | Dataframe "registro list"

subsection \<open>General metrics (lines 59-65)\<close>

definition metricas_gerais :: "registro list \<Rightarrow> erro + (rat \<times> rat \<times> nat \<times> string)" where
  "metricas_gerais v =
     (if v \<noteq> [] then
        (case idxmax (value_counts (map cargo v)) of
           Inl e \<Rightarrow> Inl e
         | Inr cargo_mais_frequente \<Rightarrow>
             Inr (mean (map usd v), maximo (map usd v), length v, cargo_mais_frequente))
      else Inr (0, 0, 0, []))"

subsection \<open>General charts (lines 76-117)\<close>

definition salario_cargo :: "registro list \<Rightarrow> (string \<times> rat) list" where
  "salario_cargo v = groupby_mean cargo usd v"

definition top_cargos :: "int \<Rightarrow> registro list \<Rightarrow> (string \<times> rat) list" where
  "top_cargos n v = sort_values_asc (nlargest (nat n) (salario_cargo v))"

definition remoto_contagem :: "registro list \<Rightarrow> (string \<times> nat) list" where
  "remoto_contagem v = value_counts (map remoto v)"

definition graficos_gerais :: "int \<Rightarrow> int \<Rightarrow> registro list \<Rightarrow> saida list" where
  "graficos_gerais top_n bins v =
     (if v \<noteq> [] then
        [Subheader TopCargos, PlotlyChart (FigTop top_n (top_cargos top_n v)), Divisor,
         Subheader DistribuicaoDeSalarios, PlotlyChart (FigHist (map usd v) bins), Divisor,
         PlotlyChart (FigRemoto (remoto_contagem v))]
      else [])"

subsection \<open>Data scientists by year and country (lines 120-166)\<close>

text \<open>
  An entry of the reference table of pycountry, and \<open>pycountry.countries.get(alpha_3=code)\<close>
  as a function that returns \<open>None\<close> for a code the table does not hold. The table is a
  parameter of the model.
\<close>

record country =
  name :: string
  alpha_2 :: string

definition obter_pais_info :: "(string \<Rightarrow> country option) \<Rightarrow> string \<Rightarrow> string \<times> string" where
  "obter_pais_info countries code =
     (case countries code of
        Some c \<Rightarrow> (name c, alpha_2 c)
      | None \<Rightarrow> (code, take 2 code))"

text \<open>
  \<open>media_global\<close> is the dictionary of the yearly means; \<open>media_global[row['ano']]\<close>
  raises KeyError on a year that is not a key.
\<close>

definition media_global :: "registro list \<Rightarrow> (int \<rightharpoonup> rat)" where
  "media_global df_ds = map_of (groupby_mean ano usd df_ds)"

definition linha_de ::
  "(string \<Rightarrow> country option) \<Rightarrow> (int \<rightharpoonup> rat) \<Rightarrow> (int \<times> string) \<times> rat \<Rightarrow> erro + linha_anim" where
  "linha_de countries mg l =
     (case mg (fst (fst l)) of
        None \<Rightarrow> Inl KeyError
      | Some g \<Rightarrow>
          Inr \<lparr> ano_anim = fst (fst l),
                residencia_iso3_anim = snd (fst l),
                usd_anim = snd l,
                pais_full = fst (obter_pais_info countries (snd (fst l))),
                pais_abrev = snd (obter_pais_info countries (snd (fst l))),
                cor = snd l - g \<rparr>)"

text \<open>\<open>DataFrame.apply(..., axis=1)\<close>: row by row, the first exception ends the run.\<close>

fun apply_linhas :: "('a \<Rightarrow> erro + 'b) \<Rightarrow> 'a list \<Rightarrow> erro + 'b list" where
  "apply_linhas f [] = Inr []"
| "apply_linhas f (x # xs) =
     (case f x of
        Inl e \<Rightarrow> Inl e
      | Inr y \<Rightarrow> (case apply_linhas f xs of Inl e \<Rightarrow> Inl e | Inr ys \<Rightarrow> Inr (y # ys)))"

definition df_anim :: "(string \<Rightarrow> country option) \<Rightarrow> registro list \<Rightarrow> erro + linha_anim list" where
  "df_anim countries df_ds =
     apply_linhas (linha_de countries (media_global df_ds))
       (sort_values_desc (groupby_mean (\<lambda>r. (ano r, residencia_iso3 r)) usd df_ds))"

text \<open>Line 121: the rows of the filtered frame whose role is Data Scientist.\<close>

definition df_ds :: "registro list \<Rightarrow> registro list" where
  "df_ds v = filter (\<lambda>r. cargo r = ''Data Scientist'') v"

definition secao_cientistas :: "(string \<Rightarrow> country option) \<Rightarrow> registro list \<Rightarrow> erro + saida list" where
  "secao_cientistas countries v =
     (if v \<noteq> [] then
        (if df_ds v \<noteq> [] then
           (case df_anim countries (df_ds v) of
              Inl e \<Rightarrow> Inl e
            | Inr linhas \<Rightarrow> Inr [Subheader CientistasDeDados, PlotlyChart (FigBarAnim linhas)])
         else Inr [Subheader CientistasDeDados])
      else Inr [])"

subsection \<open>The script\<close>

text \<open>
  One run of app.py on the loaded frame \<open>df\<close>: the sliders (lines 31-32), the filter
  (line 35), the title and the introduction (lines 52-53), the metrics (lines 58-73), the
  general charts (lines 76-117), the section of the data scientists (lines 120-166) and
  the first 1000 rows of the filtered frame (lines 169-170). An exception ends the run.
\<close>

definition app ::
  "registro list \<Rightarrow> (string \<Rightarrow> country option) \<Rightarrow> selecao \<Rightarrow> nat option \<Rightarrow> nat option
     \<Rightarrow> erro + saida list" where
  "app df countries s pos_top pos_bins =
     (case top_n_cargos pos_top of
        Inl e \<Rightarrow> Inl e
      | Inr top_n \<Rightarrow>
     (case hist_bins pos_bins of
        Inl e \<Rightarrow> Inl e
      | Inr bins \<Rightarrow>
     (case metricas_gerais (df_filtrado df s) of
        Inl e \<Rightarrow> Inl e
      | Inr (salario_medio, salario_maximo, total_registros, cargo_mais_frequente) \<Rightarrow>
     (case secao_cientistas countries (df_filtrado df s) of
        Inl e \<Rightarrow> Inl e
      | Inr cientistas \<Rightarrow>
          Inr ([Title, Markdown, Subheader MetricasGerais,
                Metric (SalarioMedio salario_medio), Metric (SalarioMaximo salario_maximo),
                Metric (TotalDeRegistros total_registros),
                Metric (CargoMaisFrequente cargo_mais_frequente), Divisor]
               @ graficos_gerais top_n bins (df_filtrado df s)
               @ cientistas
               @ [Subheader DadosDetalhados, Dataframe (take 1000 (df_filtrado df s))])))))"

text \<open>The elements of the page that are charts.\<close>

fun eh_grafico :: "saida \<Rightarrow> bool" where
  "eh_grafico (PlotlyChart g) = True"
| "eh_grafico e = False"

subsection \<open>Example inputs\<close>

text \<open>A row written positionally, in the order of the columns of \<open>registro\<close>.\<close>

definition reg ::
  "int \<Rightarrow> string \<Rightarrow> string \<Rightarrow> string \<Rightarrow> string \<Rightarrow> string \<Rightarrow> string \<Rightarrow> rat \<Rightarrow> registro" where
  "reg a se co ta ca re pais u =
     \<lparr> ano = a, senioridade = se, contrato = co, tamanho_empresa = ta, cargo = ca,
       remoto = re, residencia_iso3 = pais, usd = u \<rparr>"

definition exemplo_df :: "registro list" where
  "exemplo_df =
     [reg 2023 ''senior'' ''integral'' ''media'' ''Data Scientist'' ''remoto'' ''BRA'' 50000,
      reg 2023 ''senior'' ''integral'' ''media'' ''Data Scientist'' ''remoto'' ''USA'' 70000,
      reg 2022 ''pleno'' ''integral'' ''grande'' ''Data Scientist'' ''presencial'' ''BRA'' 60000,
      reg 2023 ''pleno'' ''parcial'' ''grande'' ''Data Engineer'' ''presencial'' ''USA'' 80000]"

definition exemplo_countries :: "string \<Rightarrow> country option" where
  "exemplo_countries code =
     (if code = ''BRA'' then Some \<lparr> name = ''Brazil'', alpha_2 = ''BR'' \<rparr>
      else if code = ''USA'' then Some \<lparr> name = ''United States'', alpha_2 = ''US'' \<rparr>
      else None)"

text \<open>
  A view with six roles, first met in the order ML Engineer, Data Analyst, Data Architect,
  Data Engineer, Data Scientist, Research Scientist; ML Engineer and Data Analyst have
  the same mean salary, the lowest.
\<close>

definition exemplo_empate :: "registro list" where
  "exemplo_empate =
     [reg 2023 ''senior'' ''integral'' ''media'' ''ML Engineer'' ''remoto'' ''USA'' 100000,
      reg 2023 ''senior'' ''integral'' ''media'' ''Data Analyst'' ''remoto'' ''USA'' 90000,
      reg 2023 ''senior'' ''integral'' ''media'' ''Data Analyst'' ''remoto'' ''BRA'' 110000,
      reg 2023 ''senior'' ''integral'' ''media'' ''Data Architect'' ''remoto'' ''USA'' 150000,
      reg 2023 ''senior'' ''integral'' ''media'' ''Data Engineer'' ''remoto'' ''USA'' 140000,
      reg 2023 ''senior'' ''integral'' ''media'' ''Data Scientist'' ''remoto'' ''USA'' 130000,
      reg 2023 ''senior'' ''integral'' ''media'' ''Research Scientist'' ''remoto'' ''USA'' 160000]"

text \<open>A selection that keeps one row of \<open>exemplo_df\<close>, that of a data engineer.\<close>

definition exemplo_sem_cientistas :: selecao where
  "exemplo_sem_cientistas =
     \<lparr> anos_selecionados = [2022, 2023], senioridades_selecionadas = [''pleno'', ''senior''],
       contratos_selecionados = [''parcial''], tamanhos_selecionados = [''grande'', ''media''] \<rparr>"

subsection \<open>The rows of the animated chart when no exception is raised\<close>


section \<open>Properties of the primitives\<close>

lemma count_list_filter: "count_list (filter P xs) r = (if P r then count_list xs r else 0)"
  by (induction xs) auto

lemma set_unique: "set (unique xs) = set xs"
  by (induction xs rule: unique.induct) auto

lemma distinct_unique: "distinct (unique xs)"
  by (induction xs rule: unique.induct) (auto simp: set_unique)

lemma slider_range:
  assumes "0 < step" and "min_value \<le> value" and "value \<le> max_value"
  shows "\<exists>n. slider min_value max_value value step posicao = Inr n
           \<and> min_value \<le> n \<and> n \<le> max_value"
proof (cases posicao)
  case None
  with assms show ?thesis by (simp add: slider_def)
next
  case (Some k)
  let ?q = "(max_value - min_value) div step"
  let ?m = "min (int k) ?q"
  have q0: "0 \<le> ?q" using assms by (simp add: pos_imp_zdiv_nonneg_iff)
  have m0: "0 \<le> ?m" using q0 by simp
  have "?q * step + (max_value - min_value) mod step = max_value - min_value"
    by (rule div_mult_mod_eq)
  moreover have "0 \<le> (max_value - min_value) mod step"
    using assms(1) by simp
  ultimately have "?q * step \<le> max_value - min_value" by linarith
  then have a: "step * ?q \<le> max_value - min_value" by (simp add: mult.commute)
  have b: "step * ?m \<le> step * ?q"
    using assms(1) by (intro mult_left_mono) simp_all
  have c: "0 \<le> step * ?m"
    using assms(1) m0 by (intro mult_nonneg_nonneg) simp_all
  have ok: "\<not> (step \<le> 0 \<or> max_value < min_value \<or> value < min_value \<or> max_value < value)"
    using assms by simp
  have "slider min_value max_value value step posicao = Inr (min_value + step * ?m)"
    unfolding slider_def Some using ok by simp
  moreover have "min_value \<le> min_value + step * ?m" using c by linarith
  moreover have "min_value + step * ?m \<le> max_value" using a b by linarith
  ultimately show ?thesis by blast
qed

lemma top_n_cargos_ok: "\<exists>n. top_n_cargos posicao = Inr n"
  using slider_range [of 1 5 10 20 posicao] by (auto simp: top_n_cargos_def)

lemma hist_bins_ok: "\<exists>b. hist_bins posicao = Inr b"
  using slider_range [of 1 10 30 50 posicao] by (auto simp: hist_bins_def)

section \<open>The filter\<close>

text \<open>
  C1. For every frame and every selection, the filtered frame is a subsequence of the
  frame (the rows that stay keep their relative order), and every row occurs in it as
  often as in the frame when its year, seniority, contract type and company size each
  belong to the corresponding selection, and not at all otherwise.
\<close>

theorem df_filtrado_subsequence:
  "subseq (df_filtrado df s) df \<and>
   (\<forall>r. count_list (df_filtrado df s) r =
      (if ano r \<in> set (anos_selecionados s)
          \<and> senioridade r \<in> set (senioridades_selecionadas s)
          \<and> contrato r \<in> set (contratos_selecionados s)
          \<and> tamanho_empresa r \<in> set (tamanhos_selecionados s)
       then count_list df r else 0))"
  unfolding df_filtrado_def by (simp add: count_list_filter)

theorem df_filtrado_subsequence_witness:
  "df_filtrado exemplo_df
     \<lparr> anos_selecionados = [2023], senioridades_selecionadas = [''pleno'', ''senior''],
       contratos_selecionados = [''integral''], tamanhos_selecionados = [''grande'', ''media''] \<rparr>
   = [reg 2023 ''senior'' ''integral'' ''media'' ''Data Scientist'' ''remoto'' ''BRA'' 50000,
      reg 2023 ''senior'' ''integral'' ''media'' ''Data Scientist'' ''remoto'' ''USA'' 70000]
   \<and> subseq
     [reg 2023 ''senior'' ''integral'' ''media'' ''Data Scientist'' ''remoto'' ''BRA'' 50000,
      reg 2023 ''senior'' ''integral'' ''media'' ''Data Scientist'' ''remoto'' ''USA'' 70000]
     exemplo_df"
  using df_filtrado_subsequence [of exemplo_df
     "\<lparr> anos_selecionados = [2023], senioridades_selecionadas = [''pleno'', ''senior''],
       contratos_selecionados = [''integral''], tamanhos_selecionados = [''grande'', ''media''] \<rparr>"]
  by (simp add: df_filtrado_def exemplo_df_def reg_def)

lemma selecao_padrao_observed:
  "set (anos_selecionados (selecao_padrao df)) = ano ` set df"
  "set (senioridades_selecionadas (selecao_padrao df)) = senioridade ` set df"
  "set (contratos_selecionados (selecao_padrao df)) = contrato ` set df"
  "set (tamanhos_selecionados (selecao_padrao df)) = tamanho_empresa ` set df"
  by (simp_all add: selecao_padrao_def anos_disponiveis_def senioridades_disponiveis_def
      contratos_disponiveis_def tamanhos_disponiveis_def set_unique)

text \<open>
  C5. When the selection of every dimension holds exactly the values observed for that
  dimension in the frame, the filter returns the frame itself. By
  \<open>selecao_padrao_observed\<close> the default selection of the sidebar is such a selection.
\<close>

theorem df_filtrado_identity:
  assumes "set (anos_selecionados s) = ano ` set df"
    and "set (senioridades_selecionadas s) = senioridade ` set df"
    and "set (contratos_selecionados s) = contrato ` set df"
    and "set (tamanhos_selecionados s) = tamanho_empresa ` set df"
  shows "df_filtrado df s = df"
  unfolding df_filtrado_def using assms by (intro filter_True) simp

theorem df_filtrado_identity_witness:
  "set (anos_selecionados (selecao_padrao exemplo_df)) = ano ` set exemplo_df
   \<and> anos_selecionados (selecao_padrao exemplo_df) = [2022, 2023]
   \<and> df_filtrado exemplo_df (selecao_padrao exemplo_df) = exemplo_df"
proof -
  have a: "set (anos_selecionados (selecao_padrao exemplo_df)) = ano ` set exemplo_df"
    by (simp add: selecao_padrao_def anos_disponiveis_def exemplo_df_def reg_def insert_commute)
  have b: "set (senioridades_selecionadas (selecao_padrao exemplo_df))
             = senioridade ` set exemplo_df"
    by (simp add: selecao_padrao_def senioridades_disponiveis_def set_unique)
  have c: "set (contratos_selecionados (selecao_padrao exemplo_df)) = contrato ` set exemplo_df"
    by (simp add: selecao_padrao_def contratos_disponiveis_def set_unique)
  have d: "set (tamanhos_selecionados (selecao_padrao exemplo_df))
             = tamanho_empresa ` set exemplo_df"
    by (simp add: selecao_padrao_def tamanhos_disponiveis_def set_unique)
  have e: "anos_selecionados (selecao_padrao exemplo_df) = [2022, 2023]"
    by (simp add: selecao_padrao_def anos_disponiveis_def exemplo_df_def reg_def)
  from df_filtrado_identity [OF a b c d] a e show ?thesis by simp
qed

text \<open>
  C6. When the selection of at least one dimension is empty, the filter returns the
  empty frame: an empty selection is not read as "no restriction".
\<close>

theorem df_filtrado_empty_selection:
  assumes "anos_selecionados s = [] \<or> senioridades_selecionadas s = []
           \<or> contratos_selecionados s = [] \<or> tamanhos_selecionados s = []"
  shows "df_filtrado df s = []"
  unfolding df_filtrado_def using assms by auto

theorem df_filtrado_empty_selection_witness:
  "df_filtrado exemplo_df
     \<lparr> anos_selecionados = [2022, 2023], senioridades_selecionadas = [],
       contratos_selecionados = [''integral'', ''parcial''],
       tamanhos_selecionados = [''grande'', ''media''] \<rparr> = []"
  using df_filtrado_empty_selection [of
     "\<lparr> anos_selecionados = [2022, 2023], senioridades_selecionadas = [],
       contratos_selecionados = [''integral'', ''parcial''],
       tamanhos_selecionados = [''grande'', ''media''] \<rparr>" exemplo_df]
  by simp

section \<open>The sidebar sliders\<close>

text \<open>
  C9. In every run the slider of the top roles returns without an exception, and the
  number \<open>N\<close> it returns is an integer with \<open>5 \<le> N \<le> 20\<close>, whatever the position of
  its thumb.
\<close>

theorem top_n_cargos_bounds:
  "\<exists>n. top_n_cargos posicao = Inr n \<and> 5 \<le> n \<and> n \<le> 20"
  using slider_range [of 1 5 10 20 posicao] by (simp add: top_n_cargos_def)

theorem top_n_cargos_bounds_witness:
  "top_n_cargos None = Inr 10 \<and> top_n_cargos (Some 0) = Inr 5
   \<and> top_n_cargos (Some 7) = Inr 12 \<and> top_n_cargos (Some 40) = Inr 20"
  using top_n_cargos_bounds [of None] by (simp add: top_n_cargos_def slider_def)

section \<open>Country enrichment\<close>

text \<open>
  C8, as stated: a code the reference table does not hold comes back unchanged as both
  the display name and the abbreviation. The code \<open>XXX\<close> is not in the example table,
  and its abbreviation is \<open>XX\<close>, not \<open>XXX\<close>.
\<close>

theorem obter_pais_info_unknown_counterexample:
  "exemplo_countries ''XXX'' = None
   \<and> obter_pais_info exemplo_countries ''XXX'' = (''XXX'', ''XX'')
   \<and> snd (obter_pais_info exemplo_countries ''XXX'') \<noteq> ''XXX''"
  by (simp add: obter_pais_info_def exemplo_countries_def)

text \<open>
  C8, amended. For every code the reference table does not hold, the lookup returns
  the code unchanged as the display name and the first two characters of the code as
  the abbreviation (line 134: \<open>code[:2]\<close>).
\<close>

theorem obter_pais_info_unknown:
  assumes "countries code = None"
  shows "obter_pais_info countries code = (code, take 2 code)"
  using assms by (simp add: obter_pais_info_def)

theorem obter_pais_info_unknown_witness:
  "exemplo_countries ''XXX'' = None
   \<and> obter_pais_info exemplo_countries ''XXX'' = (''XXX'', ''XX'')"
proof -
  have h: "exemplo_countries ''XXX'' = None" by (simp add: exemplo_countries_def)
  from obter_pais_info_unknown [of exemplo_countries "''XXX''"] h show ?thesis by simp
qed

section \<open>The empty view\<close>

text \<open>
  C4. When the filtered frame is empty, the four metrics are the defaults of line 65
  (mean salary 0, maximum salary 0, 0 records, the empty string as the most frequent
  role), the general charts and the section of the data scientists write nothing, and
  the page of the run holds the title, the introduction, the four default metrics, the
  divider and the empty data table: no chart is on it.
\<close>

theorem empty_view_defaults:
  assumes "df_filtrado df s = []"
  shows "metricas_gerais (df_filtrado df s) = Inr (0, 0, 0, [])
     \<and> graficos_gerais top_n bins (df_filtrado df s) = []
     \<and> secao_cientistas countries (df_filtrado df s) = Inr []
     \<and> app df countries s pos_top pos_bins =
         Inr [Title, Markdown, Subheader MetricasGerais,
              Metric (SalarioMedio 0), Metric (SalarioMaximo 0), Metric (TotalDeRegistros 0),
              Metric (CargoMaisFrequente []), Divisor,
              Subheader DadosDetalhados, Dataframe []]
     \<and> filter eh_grafico
         [Title, Markdown, Subheader MetricasGerais,
          Metric (SalarioMedio 0), Metric (SalarioMaximo 0), Metric (TotalDeRegistros 0),
          Metric (CargoMaisFrequente []), Divisor,
          Subheader DadosDetalhados, Dataframe []] = []"
proof -
  obtain n where n: "top_n_cargos pos_top = Inr n" using top_n_cargos_ok by blast
  obtain b where b: "hist_bins pos_bins = Inr b" using hist_bins_ok by blast
  show ?thesis
    by (simp add: assms app_def n b metricas_gerais_def graficos_gerais_def secao_cientistas_def)
qed

theorem empty_view_defaults_witness:
  "df_filtrado exemplo_df
     \<lparr> anos_selecionados = [2021], senioridades_selecionadas = [''pleno'', ''senior''],
       contratos_selecionados = [''integral'', ''parcial''],
       tamanhos_selecionados = [''grande'', ''media''] \<rparr> = []
   \<and> app exemplo_df exemplo_countries
     \<lparr> anos_selecionados = [2021], senioridades_selecionadas = [''pleno'', ''senior''],
       contratos_selecionados = [''integral'', ''parcial''],
       tamanhos_selecionados = [''grande'', ''media''] \<rparr> None None =
         Inr [Title, Markdown, Subheader MetricasGerais,
              Metric (SalarioMedio 0), Metric (SalarioMaximo 0), Metric (TotalDeRegistros 0),
              Metric (CargoMaisFrequente []), Divisor,
              Subheader DadosDetalhados, Dataframe []]"
proof -
  have h: "df_filtrado exemplo_df
     \<lparr> anos_selecionados = [2021], senioridades_selecionadas = [''pleno'', ''senior''],
       contratos_selecionados = [''integral'', ''parcial''],
       tamanhos_selecionados = [''grande'', ''media''] \<rparr> = []"
    by (simp add: df_filtrado_def exemplo_df_def reg_def)
  from empty_view_defaults [OF h, of 10 30 exemplo_countries None None] h
  show ?thesis by simp
qed

section \<open>Top roles by mean salary\<close>

lemma groupby_mean_keys: "map fst (groupby_mean chave valor df) = sort (unique (map chave df))"
  by (simp add: groupby_mean_def comp_def)

lemma groupby_mean_strict: "sorted_wrt (\<lambda>a b. fst a < fst b) (groupby_mean chave valor df)"
proof -
  have "sorted_wrt (<) (map fst (groupby_mean chave valor df))"
    unfolding groupby_mean_keys by (simp add: strict_sorted_iff distinct_unique)
  then show ?thesis by (simp add: sorted_wrt_map)
qed

lemma groupby_mean_set:
  "l \<in> set (groupby_mean chave valor df) \<longleftrightarrow>
     fst l \<in> chave ` set df
     \<and> snd l = mean (map valor (filter (\<lambda>r. chave r = fst l) df))"
  by (cases l) (auto simp: groupby_mean_def set_unique)

lemma insort_key_lex:
  assumes "sorted_wrt (\<lambda>a b. f a < f b \<or> (f a = f b \<and> fst a < fst b)) ys"
    and "\<forall>y \<in> set ys. fst x < fst y"
  shows "sorted_wrt (\<lambda>a b. f a < f b \<or> (f a = f b \<and> fst a < fst b)) (insort_key f x ys)"
  using assms by (induction ys) (auto simp: set_insort_key)

lemma sort_key_lex:
  assumes "sorted_wrt (\<lambda>a b. fst a < fst b) xs"
  shows "sorted_wrt (\<lambda>a b. f a < f b \<or> (f a = f b \<and> fst a < fst b)) (sort_key f xs)"
  using assms
proof (induction xs)
  case Nil
  then show ?case by simp
next
  case (Cons x xs)
  then show ?case by (auto intro!: insort_key_lex)
qed

lemma take_drop_lex:
  assumes "sorted_wrt R ys" and "a \<in> set (take n ys)" and "b \<in> set ys" and "b \<notin> set (take n ys)"
  shows "R a b"
proof -
  have "set ys = set (take n ys) \<union> set (drop n ys)"
    by (metis append_take_drop_id set_append)
  then have "b \<in> set (drop n ys)" using assms(3,4) by simp
  moreover have "sorted_wrt R (take n ys @ drop n ys)" using assms(1) by simp
  ultimately show ?thesis using assms(2) unfolding sorted_wrt_append by blast
qed

lemma set_top_cargos:
  "set (top_cargos n v) = set (take (nat n) (sort_key (\<lambda>l. - snd l) (salario_cargo v)))"
  by (simp add: top_cargos_def sort_values_asc_def nlargest_def)

lemma nlargest_lex:
  assumes "a \<in> set (top_cargos n v)" and "b \<in> set (salario_cargo v)"
    and "b \<notin> set (top_cargos n v)"
  shows "snd b < snd a \<or> (snd b = snd a \<and> fst a < fst b)"
proof -
  let ?ys = "sort_key (\<lambda>l. - snd l) (salario_cargo v)"
  have "sorted_wrt (\<lambda>a b. - snd a < - snd b \<or> (- snd a = - snd b \<and> fst a < fst b)) ?ys"
    unfolding salario_cargo_def by (rule sort_key_lex) (rule groupby_mean_strict)
  moreover have "a \<in> set (take (nat n) ?ys)" using assms(1) by (simp add: set_top_cargos)
  moreover have "b \<in> set ?ys" using assms(2) by simp
  moreover have "b \<notin> set (take (nat n) ?ys)" using assms(3) by (simp add: set_top_cargos)
  ultimately have "- snd a < - snd b \<or> (- snd a = - snd b \<and> fst a < fst b)"
    by (rule take_drop_lex)
  then show ?thesis by auto
qed

lemma distinct_salario_cargo: "distinct (map fst (salario_cargo v))"
  unfolding salario_cargo_def groupby_mean_keys by (simp add: distinct_unique)

lemma top_cargos_subset: "set (top_cargos n v) \<subseteq> set (salario_cargo v)"
  unfolding set_top_cargos using set_take_subset [of "nat n" "sort_key (\<lambda>l. - snd l) (salario_cargo v)"]
  by simp

lemma length_top_cargos:
  "length (top_cargos n v) = min (nat n) (card (cargo ` set v))"
proof -
  have "length (salario_cargo v) = length (unique (map cargo v))"
    by (simp add: salario_cargo_def groupby_mean_def)
  also have "\<dots> = card (set (unique (map cargo v)))"
    by (simp add: distinct_card distinct_unique)
  finally have "length (salario_cargo v) = card (cargo ` set v)" by (simp add: set_unique)
  then show ?thesis
    by (simp add: top_cargos_def sort_values_asc_def nlargest_def min.commute)
qed

text \<open>
  C2. For every view and every \<open>N\<close>, the frame of the top roles has one row per
  selected role, the role with the mean of \<open>usd\<close> over the rows of that role in the
  view; it has at most \<open>N\<close> rows (exactly the smaller of \<open>N\<close> and the number of
  distinct roles), no role twice, sorted ascending by mean; and every role of the view
  that is not selected has a mean less than or equal to the mean of every selected row,
  hence to their minimum. Means are exact quotients.
\<close>

theorem top_cargos_correct:
  "length (top_cargos n v) \<le> nat n
   \<and> length (top_cargos n v) = min (nat n) (card (cargo ` set v))
   \<and> sorted (map snd (top_cargos n v))
   \<and> distinct (map fst (top_cargos n v))
   \<and> (\<forall>l \<in> set (top_cargos n v).
         fst l \<in> cargo ` set v
         \<and> snd l = mean (map usd (filter (\<lambda>r. cargo r = fst l) v)))
   \<and> (\<forall>c \<in> cargo ` set v. c \<notin> fst ` set (top_cargos n v) \<longrightarrow>
         (\<forall>l \<in> set (top_cargos n v).
            mean (map usd (filter (\<lambda>r. cargo r = c) v)) \<le> snd l))"
proof (intro conjI ballI impI)
  show "length (top_cargos n v) \<le> nat n"
    by (simp add: length_top_cargos)
  show "length (top_cargos n v) = min (nat n) (card (cargo ` set v))"
    by (rule length_top_cargos)
  show "sorted (map snd (top_cargos n v))"
    by (simp add: top_cargos_def sort_values_asc_def)
next
  have "distinct (map fst (sort_key (\<lambda>l. - snd l) (salario_cargo v)))"
    using distinct_salario_cargo [of v] by (simp add: distinct_map)
  then have "distinct (take (nat n) (map fst (sort_key (\<lambda>l. - snd l) (salario_cargo v))))"
    by (rule distinct_take)
  then have "distinct (map fst (take (nat n) (sort_key (\<lambda>l. - snd l) (salario_cargo v))))"
    by (simp add: take_map)
  then show "distinct (map fst (top_cargos n v))"
    unfolding top_cargos_def sort_values_asc_def nlargest_def by (simp add: distinct_map)
next
  fix l assume "l \<in> set (top_cargos n v)"
  then have "l \<in> set (groupby_mean cargo usd v)"
    using top_cargos_subset by (auto simp: salario_cargo_def)
  then show "fst l \<in> cargo ` set v"
    and "snd l = mean (map usd (filter (\<lambda>r. cargo r = fst l) v))"
    by (simp_all add: groupby_mean_set)
next
  fix c l
  assume c: "c \<in> cargo ` set v" and nc: "c \<notin> fst ` set (top_cargos n v)"
    and l: "l \<in> set (top_cargos n v)"
  let ?b = "(c, mean (map usd (filter (\<lambda>r. cargo r = c) v)))"
  have b: "?b \<in> set (salario_cargo v)"
    using c by (simp add: salario_cargo_def groupby_mean_set)
  have "?b \<notin> set (top_cargos n v)" using nc by force
  from nlargest_lex [OF l b this]
  show "mean (map usd (filter (\<lambda>r. cargo r = c) v)) \<le> snd l" by auto
qed

theorem top_cargos_correct_witness:
  "top_cargos 5 exemplo_empate =
     [(''Data Analyst'', 100000), (''Data Scientist'', 130000), (''Data Engineer'', 140000),
      (''Data Architect'', 150000), (''Research Scientist'', 160000)]
   \<and> sorted (map snd (top_cargos 5 exemplo_empate))
   \<and> length (top_cargos 5 exemplo_empate) = min (nat 5) (card (cargo ` set exemplo_empate))"
proof -
  have e: "top_cargos 5 exemplo_empate =
     [(''Data Analyst'', 100000), (''Data Scientist'', 130000), (''Data Engineer'', 140000),
      (''Data Architect'', 150000), (''Research Scientist'', 160000)]"
    by code_simp
  from top_cargos_correct [of 5 exemplo_empate] e show ?thesis by blast
qed




section \<open>Mean salary of the data scientists by year and country\<close>













section \<open>A view without data scientists\<close>

lemma idxmax_value_counts_ok:
  assumes "xs \<noteq> []"
  shows "\<exists>c. idxmax (value_counts xs) = Inr c"
proof -
  have "length (value_counts xs) = length (unique xs)" by (simp add: value_counts_def)
  moreover have "unique xs \<noteq> []" using assms by (cases xs) simp_all
  ultimately have "value_counts xs \<noteq> []" by auto
  then show ?thesis by (cases "value_counts xs") simp_all
qed

text \<open>
  C10, as stated: when the view is not empty and holds no Data Scientist, the section of
  the data scientists writes nothing. On the view of one data engineer it writes its
  subheader (line 122 runs before the test of line 124).
\<close>

theorem secao_cientistas_counterexample:
  "df_filtrado exemplo_df exemplo_sem_cientistas =
     [reg 2023 ''pleno'' ''parcial'' ''grande'' ''Data Engineer'' ''presencial'' ''USA'' 80000]
   \<and> df_ds (df_filtrado exemplo_df exemplo_sem_cientistas) = []
   \<and> secao_cientistas exemplo_countries (df_filtrado exemplo_df exemplo_sem_cientistas)
       = Inr [Subheader CientistasDeDados]
   \<and> secao_cientistas exemplo_countries (df_filtrado exemplo_df exemplo_sem_cientistas) \<noteq> Inr []"
  by code_simp

text \<open>
  C10, amended. When the view is not empty and holds no row whose role is Data
  Scientist, the run raises no exception, the section of the data scientists writes its
  subheader and no chart, and the page holds the four metrics computed from the view,
  the three general charts and the first 1000 rows of the view.
\<close>

theorem no_data_scientist_page:
  assumes "df_filtrado df s \<noteq> []" and "df_ds (df_filtrado df s) = []"
  shows "secao_cientistas countries (df_filtrado df s) = Inr [Subheader CientistasDeDados]
     \<and> (\<exists>top_n bins cargo_mais_frequente.
           top_n_cargos pos_top = Inr top_n \<and> hist_bins pos_bins = Inr bins
         \<and> idxmax (value_counts (map cargo (df_filtrado df s))) = Inr cargo_mais_frequente
         \<and> app df countries s pos_top pos_bins =
             Inr [Title, Markdown, Subheader MetricasGerais,
                  Metric (SalarioMedio (mean (map usd (df_filtrado df s)))),
                  Metric (SalarioMaximo (maximo (map usd (df_filtrado df s)))),
                  Metric (TotalDeRegistros (length (df_filtrado df s))),
                  Metric (CargoMaisFrequente cargo_mais_frequente), Divisor,
                  Subheader TopCargos,
                  PlotlyChart (FigTop top_n (top_cargos top_n (df_filtrado df s))), Divisor,
                  Subheader DistribuicaoDeSalarios,
                  PlotlyChart (FigHist (map usd (df_filtrado df s)) bins), Divisor,
                  PlotlyChart (FigRemoto (remoto_contagem (df_filtrado df s))),
                  Subheader CientistasDeDados,
                  Subheader DadosDetalhados, Dataframe (take 1000 (df_filtrado df s))])"
proof -
  obtain n where n: "top_n_cargos pos_top = Inr n" using top_n_cargos_ok by blast
  obtain b where b: "hist_bins pos_bins = Inr b" using hist_bins_ok by blast
  obtain c where c: "idxmax (value_counts (map cargo (df_filtrado df s))) = Inr c"
    using idxmax_value_counts_ok [of "map cargo (df_filtrado df s)"] assms(1) by auto
  have sec: "secao_cientistas countries (df_filtrado df s) = Inr [Subheader CientistasDeDados]"
    using assms by (simp add: secao_cientistas_def)
  have "app df countries s pos_top pos_bins =
             Inr [Title, Markdown, Subheader MetricasGerais,
                  Metric (SalarioMedio (mean (map usd (df_filtrado df s)))),
                  Metric (SalarioMaximo (maximo (map usd (df_filtrado df s)))),
                  Metric (TotalDeRegistros (length (df_filtrado df s))),
                  Metric (CargoMaisFrequente c), Divisor,
                  Subheader TopCargos,
                  PlotlyChart (FigTop n (top_cargos n (df_filtrado df s))), Divisor,
                  Subheader DistribuicaoDeSalarios,
                  PlotlyChart (FigHist (map usd (df_filtrado df s)) b), Divisor,
                  PlotlyChart (FigRemoto (remoto_contagem (df_filtrado df s))),
                  Subheader CientistasDeDados,
                  Subheader DadosDetalhados, Dataframe (take 1000 (df_filtrado df s))]"
    using assms(1) by (simp add: app_def n b c sec metricas_gerais_def graficos_gerais_def)
  with n b c sec show ?thesis by blast
qed

theorem no_data_scientist_page_witness:
  "df_filtrado exemplo_df exemplo_sem_cientistas \<noteq> []
   \<and> df_ds (df_filtrado exemplo_df exemplo_sem_cientistas) = []
   \<and> secao_cientistas exemplo_countries (df_filtrado exemplo_df exemplo_sem_cientistas)
       = Inr [Subheader CientistasDeDados]
   \<and> app exemplo_df exemplo_countries exemplo_sem_cientistas None None =
       Inr [Title, Markdown, Subheader MetricasGerais,
            Metric (SalarioMedio 80000), Metric (SalarioMaximo 80000),
            Metric (TotalDeRegistros 1), Metric (CargoMaisFrequente ''Data Engineer''), Divisor,
            Subheader TopCargos, PlotlyChart (FigTop 10 [(''Data Engineer'', 80000)]), Divisor,
            Subheader DistribuicaoDeSalarios, PlotlyChart (FigHist [80000] 30), Divisor,
            PlotlyChart (FigRemoto [(''presencial'', 1)]),
            Subheader CientistasDeDados,
            Subheader DadosDetalhados,
            Dataframe [reg 2023 ''pleno'' ''parcial'' ''grande'' ''Data Engineer''
                         ''presencial'' ''USA'' 80000]]"
proof -
  have h1: "df_filtrado exemplo_df exemplo_sem_cientistas \<noteq> []" by code_simp
  have h2: "df_ds (df_filtrado exemplo_df exemplo_sem_cientistas) = []" by code_simp
  have e: "app exemplo_df exemplo_countries exemplo_sem_cientistas None None =
       Inr [Title, Markdown, Subheader MetricasGerais,
            Metric (SalarioMedio 80000), Metric (SalarioMaximo 80000),
            Metric (TotalDeRegistros 1), Metric (CargoMaisFrequente ''Data Engineer''), Divisor,
            Subheader TopCargos, PlotlyChart (FigTop 10 [(''Data Engineer'', 80000)]), Divisor,
            Subheader DistribuicaoDeSalarios, PlotlyChart (FigHist [80000] 30), Divisor,
            PlotlyChart (FigRemoto [(''presencial'', 1)]),
            Subheader CientistasDeDados,
            Subheader DadosDetalhados,
            Dataframe [reg 2023 ''pleno'' ''parcial'' ''grande'' ''Data Engineer''
                         ''presencial'' ''USA'' 80000]]"
    by code_simp
  from no_data_scientist_page [OF h1 h2, of exemplo_countries None None] h1 h2 e
  show ?thesis by blast
qed


end
